theory Spec2Isabelle
  imports Complex_Main "HOL-Library.AList" "HOL-Library.Char_ord" "HOL-Library.List_Lexorder"
begin

section \<open>Values, exceptions and tables\<close>

text \<open>
  The script is Python. Its exceptions are values of \<open>py_exception\<close>: a fallible
  operation returns \<open>py_exception + 'a\<close>, with \<open>Inl\<close> for the exception raised.
  The built-in kinds carry no message (the text of a numpy or pandas message is not
  decided by the script); \<open>ExternalError\<close> is an exception raised inside one of the
  statistical backends (R, semopy, statsmodels), carrying its message, and \<open>PatsyError\<close>
  is what patsy raises for a formula it cannot evaluate. Every value of
  the type is an instance of Python's \<open>Exception\<close>: signals that are not
  (\<open>KeyboardInterrupt\<close>, \<open>SystemExit\<close>) are no part of the model.

  A numpy \<open>float64\<close> is modelled as a \<open>real\<close> and an \<open>int64\<close> as an \<open>int\<close>:
  rounding, overflow and NaN are abstracted away. The random draws of the script
  are finite by numpy's contract, and the values of the integer columns stay far
  from the 64-bit range.
\<close>

datatype py_exception =
  ValueError | IndexError | KeyError | TypeError | PatsyError | ExternalError string

datatype column =
    IntCol "int list"
  | FloatCol "real list"
  | StrCol "string list"
  | BoolCol "bool list"

fun col_len :: "column \<Rightarrow> nat" where
  "col_len (IntCol xs) = length xs"
| "col_len (FloatCol xs) = length xs"
| "col_len (StrCol xs) = length xs"
| "col_len (BoolCol xs) = length xs"

text \<open>A pandas \<open>DataFrame\<close>: its columns in order, each with its name. The index is
  the default \<open>RangeIndex\<close> everywhere in the script and is left implicit.\<close>

type_synonym dataframe = "(string \<times> column) list"

definition df_rows :: "dataframe \<Rightarrow> nat" where
  "df_rows df = (case df of [] \<Rightarrow> 0 | c # _ \<Rightarrow> col_len (snd c))"

text \<open>\<open>pd.DataFrame(dict)\<close>: raises \<open>ValueError\<close> when the arrays differ in length.\<close>

definition pd_DataFrame :: "(string \<times> column) list \<Rightarrow> py_exception + dataframe" where
  "pd_DataFrame cols =
     (if list_all (\<lambda>c. col_len (snd c) = df_rows cols) cols then Inr cols else Inl ValueError)"

text \<open>\<open>data[name]\<close>: the column of that name, \<open>KeyError\<close> when there is none.\<close>

definition df_getitem :: "dataframe \<Rightarrow> string \<Rightarrow> py_exception + column" where
  "df_getitem df name = (case map_of df name of None \<Rightarrow> Inl KeyError | Some c \<Rightarrow> Inr c)"

section \<open>The seeded generator of numpy\<close>

text \<open>
  \<open>np.random\<close> is a library, not code of the script. Its global \<open>RandomState\<close> is a
  value of type \<open>'g\<close>, and the library is a record of its scalar draws, each taking
  the state and returning the drawn value with the next state. Nothing is assumed
  about the draws. An array of \<open>size\<close> draws is filled one element after the other.
\<close>

record 'g np_random =
  init_by_seed :: "nat \<Rightarrow> 'g"
  draw_randint :: "int \<Rightarrow> int \<Rightarrow> 'g \<Rightarrow> int \<times> 'g"
  draw_choice :: "string list \<Rightarrow> 'g \<Rightarrow> string \<times> 'g"
  draw_normal :: "real \<Rightarrow> real \<Rightarrow> 'g \<Rightarrow> real \<times> 'g"
  draw_uniform :: "real \<Rightarrow> real \<Rightarrow> 'g \<Rightarrow> real \<times> 'g"

fun draws :: "('g \<Rightarrow> 'a \<times> 'g) \<Rightarrow> nat \<Rightarrow> 'g \<Rightarrow> 'a list \<times> 'g" where
  "draws d 0 g = ([], g)"
| "draws d (Suc k) g =
     (case d g of (x, g1) \<Rightarrow> (case draws d k g1 of (xs, g2) \<Rightarrow> (x # xs, g2)))"

text \<open>\<open>np.random.seed(seed)\<close>: the seed must lie in \<open>[0, 2**32 - 1]\<close>; the state that
  was there before is discarded.\<close>

definition np_random_seed :: "'g np_random \<Rightarrow> int \<Rightarrow> 'g \<Rightarrow> py_exception + 'g" where
  "np_random_seed R seed g =
     (if 0 \<le> seed \<and> seed < 2 ^ 32 then Inr (init_by_seed R (nat seed)) else Inl ValueError)"

text \<open>The array draws: a negative \<open>size\<close> raises \<open>ValueError\<close> (negative dimensions).\<close>

definition np_random_randint ::
  "'g np_random \<Rightarrow> int \<Rightarrow> int \<Rightarrow> int \<Rightarrow> 'g \<Rightarrow> py_exception + (int list \<times> 'g)" where
  "np_random_randint R low high sz g =
     (if sz < 0 \<or> high \<le> low then Inl ValueError
      else Inr (draws (draw_randint R low high) (nat sz) g))"

definition np_random_choice ::
  "'g np_random \<Rightarrow> string list \<Rightarrow> int \<Rightarrow> 'g \<Rightarrow> py_exception + (string list \<times> 'g)" where
  "np_random_choice R a sz g =
     (if sz < 0 \<or> a = [] then Inl ValueError
      else Inr (draws (draw_choice R a) (nat sz) g))"

definition np_random_normal ::
  "'g np_random \<Rightarrow> real \<Rightarrow> real \<Rightarrow> int \<Rightarrow> 'g \<Rightarrow> py_exception + (real list \<times> 'g)" where
  "np_random_normal R loc scale sz g =
     (if sz < 0 \<or> scale < 0 then Inl ValueError
      else Inr (draws (draw_normal R loc scale) (nat sz) g))"

definition np_random_uniform ::
  "'g np_random \<Rightarrow> real \<Rightarrow> real \<Rightarrow> int \<Rightarrow> 'g \<Rightarrow> py_exception + (real list \<times> 'g)" where
  "np_random_uniform R low high sz g =
     (if sz < 0 then Inl ValueError
      else Inr (draws (draw_uniform R low high) (nat sz) g))"

section \<open>Array operations\<close>

text \<open>Reading and updating one element. The index comes from \<open>range\<close>, so it is never
  negative; out of range numpy raises \<open>IndexError\<close>.\<close>

definition np_getitem :: "'a list \<Rightarrow> nat \<Rightarrow> py_exception + 'a" where
  "np_getitem xs i = (if i < length xs then Inr (xs ! i) else Inl IndexError)"

definition np_iadd :: "'a::plus list \<Rightarrow> nat \<Rightarrow> 'a \<Rightarrow> py_exception + 'a list" where
  "np_iadd xs i d = (if i < length xs then Inr (xs[i := xs ! i + d]) else Inl IndexError)"

definition np_isub :: "'a::minus list \<Rightarrow> nat \<Rightarrow> 'a \<Rightarrow> py_exception + 'a list" where
  "np_isub xs i d = (if i < length xs then Inr (xs[i := xs ! i - d]) else Inl IndexError)"

definition np_clip :: "real list \<Rightarrow> real \<Rightarrow> real \<Rightarrow> real list" where
  "np_clip xs lo hi = map (\<lambda>x. min (max x lo) hi) xs"

definition np_maximum :: "'a::linorder \<Rightarrow> 'a list \<Rightarrow> 'a list" where
  "np_maximum lo xs = map (\<lambda>x. max lo x) xs"

text \<open>Sequencing of fallible steps, and a \<open>for\<close> loop over a list of indices that stops
  at the first exception.\<close>

definition bind_exc :: "py_exception + 'a \<Rightarrow> ('a \<Rightarrow> py_exception + 'b) \<Rightarrow> py_exception + 'b" where
  "bind_exc m f = (case m of Inl e \<Rightarrow> Inl e | Inr x \<Rightarrow> f x)"

fun for_each :: "(nat \<Rightarrow> 's \<Rightarrow> py_exception + 's) \<Rightarrow> nat list \<Rightarrow> 's \<Rightarrow> py_exception + 's" where
  "for_each body [] s = Inr s"
| "for_each body (i # is) s = bind_exc (body i s) (for_each body is)"

definition py_range :: "int \<Rightarrow> nat list" where
  "py_range n = [0..<nat n]"

section \<open>The data simulation\<close>

text \<open>The first adjustment loop of \<open>simulate_data\<close>: one iteration, on the arrays
  \<open>(final_self_efficacy, final_anxiety, errors_identified, completion_time)\<close>.\<close>

type_synonym measures = "real list \<times> real list \<times> int list \<times> real list"

definition adjust_measures :: "int list \<Rightarrow> int list \<Rightarrow> nat \<Rightarrow> measures \<Rightarrow> py_exception + measures" where
  "adjust_measures llm_usage herbal_blend i s =
     (case s of (final_self_efficacy, final_anxiety, errors_identified, completion_time) \<Rightarrow>
      bind_exc (np_getitem llm_usage i) (\<lambda>l.
      bind_exc
        (if l = 1 then
           bind_exc (np_iadd final_self_efficacy i 0.5) (\<lambda>fse.
           bind_exc (np_isub final_anxiety i 0.4) (\<lambda>fa.
           bind_exc (np_iadd errors_identified i 3) (\<lambda>err.
           bind_exc (np_isub completion_time i 15) (\<lambda>ct.
           Inr (fse, fa, err, ct)))))
         else Inr (final_self_efficacy, final_anxiety, errors_identified, completion_time))
        (\<lambda>(fse, fa, err, ct).
      bind_exc (np_getitem herbal_blend i) (\<lambda>h.
        if h = 1 then
           bind_exc (np_isub fa i 0.3) (\<lambda>fa'.
           bind_exc (np_iadd err i 1) (\<lambda>err'.
           Inr (fse, fa', err', ct)))
        else Inr (fse, fa, err, ct)))))"

text \<open>The second adjustment loop: one iteration, on
  \<open>(eeg_beta, pog_fixations, pog_fixation_duration, ecg_hr, eda_scr)\<close>.\<close>

type_synonym signals = "real list \<times> int list \<times> real list \<times> real list \<times> real list"

definition adjust_signals :: "int list \<Rightarrow> int list \<Rightarrow> nat \<Rightarrow> signals \<Rightarrow> py_exception + signals" where
  "adjust_signals llm_usage herbal_blend i s =
     (case s of (eeg_beta, pog_fixations, pog_fixation_duration, ecg_hr, eda_scr) \<Rightarrow>
      bind_exc (np_getitem llm_usage i) (\<lambda>l.
      bind_exc
        (if l = 1 then
           bind_exc (np_iadd eeg_beta i 2) (\<lambda>beta.
           bind_exc (np_isub pog_fixations i 5) (\<lambda>fix.
           bind_exc (np_iadd pog_fixation_duration i 50) (\<lambda>dur.
           Inr (beta, fix, dur))))
         else Inr (eeg_beta, pog_fixations, pog_fixation_duration))
        (\<lambda>(beta, fix, dur).
      bind_exc (np_getitem herbal_blend i) (\<lambda>h.
        if h = 1 then
           bind_exc (np_isub ecg_hr i 5) (\<lambda>hr.
           bind_exc (np_isub eda_scr i 0.1) (\<lambda>scr.
           Inr (beta, fix, dur, hr, scr)))
        else Inr (beta, fix, dur, ecg_hr, eda_scr)))))"

text \<open>\<open>(errors_identified + (500 - completion_time)/10) / 2\<close>, element by element.\<close>

definition composite_performance :: "int list \<Rightarrow> real list \<Rightarrow> real list" where
  "composite_performance errors_identified completion_time =
     map (\<lambda>(e, c). (real_of_int e + (500 - c) / 10) / 2) (zip errors_identified completion_time)"

text \<open>
  \<open>simulate_data(n_participants, seed)\<close>. The argument \<open>g0\<close> is the state of the global
  generator when the function is called; the result is the exception raised, or the
  table together with the state the generator is left in.
\<close>

definition simulate_data ::
  "'g np_random \<Rightarrow> 'g \<Rightarrow> int \<Rightarrow> int \<Rightarrow> py_exception + (dataframe \<times> 'g)" where
  "simulate_data R g0 n_participants seed =
     bind_exc (np_random_seed R seed g0) (\<lambda>g.
     bind_exc (np_random_randint R 18 30 n_participants g) (\<lambda>(age, g).
     bind_exc (np_random_choice R [''Male'', ''Female'', ''Other''] n_participants g) (\<lambda>(gender, g).
     bind_exc (np_random_choice R [''Beginner'', ''Intermediate'', ''Advanced''] n_participants g)
       (\<lambda>(programming_experience, g).
     let llm_usage = concat (replicate (nat (n_participants div 4)) [1, 1, 0, 0 :: int]);
         herbal_blend = concat (replicate (nat (n_participants div 4)) [1, 0, 1, 0 :: int])
     in
     bind_exc (np_random_normal R 3.5 0.5 n_participants g) (\<lambda>(initial_self_efficacy, g).
     bind_exc (np_random_normal R 2.5 0.6 n_participants g) (\<lambda>(initial_anxiety, g).
     bind_exc (np_random_randint R 5 20 n_participants g) (\<lambda>(errors_identified, g).
     bind_exc (np_random_uniform R 180 400 n_participants g) (\<lambda>(completion_time, g).
     bind_exc (for_each (adjust_measures llm_usage herbal_blend) (py_range n_participants)
                 (initial_self_efficacy, initial_anxiety, errors_identified, completion_time))
       (\<lambda>(final_self_efficacy, final_anxiety, errors_identified, completion_time).
     let final_self_efficacy = np_clip final_self_efficacy 1 5;
         final_anxiety = np_clip final_anxiety 1 4;
         errors_identified = np_maximum 0 errors_identified;
         completion_time = np_maximum 60 completion_time;
         performance = composite_performance errors_identified completion_time
     in
     bind_exc (np_random_normal R 10 2 n_participants g) (\<lambda>(eeg_alpha, g).
     bind_exc (np_random_normal R 18 3 n_participants g) (\<lambda>(eeg_beta, g).
     bind_exc (np_random_normal R 75 10 n_participants g) (\<lambda>(ecg_hr, g).
     bind_exc (np_random_normal R 0.5 0.2 n_participants g) (\<lambda>(eda_scr, g).
     bind_exc (np_random_randint R 20 100 n_participants g) (\<lambda>(pog_fixations, g).
     bind_exc (np_random_uniform R 200 500 n_participants g) (\<lambda>(pog_fixation_duration, g).
     bind_exc (np_random_normal R 3.5 0.5 n_participants g) (\<lambda>(pog_pupil_diameter, g).
     bind_exc (np_random_uniform R 10 30 n_participants g) (\<lambda>(pog_blink_rate, g).
     bind_exc (for_each (adjust_signals llm_usage herbal_blend) (py_range n_participants)
                 (eeg_beta, pog_fixations, pog_fixation_duration, ecg_hr, eda_scr))
       (\<lambda>(eeg_beta, pog_fixations, pog_fixation_duration, ecg_hr, eda_scr).
     bind_exc (pd_DataFrame
        [(''ParticipantID'', IntCol [1..n_participants]),
         (''Age'', IntCol age),
         (''Gender'', StrCol gender),
         (''ProgrammingExperience'', StrCol programming_experience),
         (''LLMUsage'', IntCol llm_usage),
         (''HerbalBlend'', IntCol herbal_blend),
         (''InitialSelfEfficacy'', FloatCol initial_self_efficacy),
         (''FinalSelfEfficacy'', FloatCol final_self_efficacy),
         (''InitialAnxiety'', FloatCol initial_anxiety),
         (''FinalAnxiety'', FloatCol final_anxiety),
         (''ErrorsIdentified'', IntCol errors_identified),
         (''CompletionTime'', FloatCol completion_time),
         (''Performance'', FloatCol performance),
         (''EEGAlpha'', FloatCol eeg_alpha),
         (''EEGBeta'', FloatCol eeg_beta),
         (''ECG_HR'', FloatCol ecg_hr),
         (''EDA_SCR'', FloatCol eda_scr),
         (''POGFixations'', IntCol pog_fixations),
         (''POGFixationDuration'', FloatCol pog_fixation_duration),
         (''POGPupilDiameter'', FloatCol pog_pupil_diameter),
         (''POGBlinkRate'', FloatCol pog_blink_rate)])
       (\<lambda>data. Inr (data, g))))))))))))))))))))"

section \<open>Preprocessing\<close>

text \<open>
  The pandas operations \<open>preprocess_data\<close> is made of. Column names are distinct in
  every table the script builds; on a frame with repeated names the operations below
  act on every column of the name.
\<close>

text \<open>\<open>df.drop(columns=names)\<close>: \<open>KeyError\<close> when a name is not a column.\<close>

definition df_drop :: "dataframe \<Rightarrow> string list \<Rightarrow> py_exception + dataframe" where
  "df_drop df names =
     (if list_all (\<lambda>c. c \<in> set (map fst df)) names
      then Inr (filter (\<lambda>c. fst c \<notin> set names) df) else Inl KeyError)"

text \<open>\<open>df[names]\<close> with a list of names: the sub-frame of these columns.\<close>

definition df_select :: "dataframe \<Rightarrow> string list \<Rightarrow> py_exception + dataframe" where
  "df_select df names =
     (if list_all (\<lambda>c. c \<in> set (map fst df)) names
      then Inr (concat (map (\<lambda>c. filter (\<lambda>p. fst p = c) df) names)) else Inl KeyError)"

text \<open>Python's \<open>str\<close> of an integer.\<close>

fun str_nat :: "nat \<Rightarrow> string" where
  "str_nat n =
     (if n < 10 then [char_of (48 + n)] else str_nat (n div 10) @ [char_of (48 + n mod 10)])"

definition str_int :: "int \<Rightarrow> string" where
  "str_int i = (if i < 0 then ''-'' @ str_nat (nat (- i)) else str_nat (nat i))"

text \<open>
  The libraries behind \<open>preprocess_data\<close> are parameters of the model:
  \<open>float_str\<close> is Python's rendering of a float (used by pandas to name the indicator
  column of a float level), and \<open>fit_transform\<close> is \<open>StandardScaler().fit_transform\<close>
  of scikit-learn, from the columns of a numeric matrix to its scaled columns. What
  the documentation of scikit-learn says of it is \<open>StandardScaler_fit_transform\<close>, at
  the end of this section.
\<close>

record preprocessing_libs =
  float_str :: "real \<Rightarrow> string"
  fit_transform :: "real list list \<Rightarrow> py_exception + real list list"

text \<open>\<open>pd.get_dummies(df, columns=names)\<close>: each named column is replaced by one
  boolean indicator column for each of its values, in sorted order, named
  \<open>column_value\<close>; the indicator columns come after the columns that are kept.\<close>

fun dummy_levels :: "(real \<Rightarrow> string) \<Rightarrow> column \<Rightarrow> (string \<times> bool list) list" where
  "dummy_levels fs (StrCol xs) = map (\<lambda>v. (v, map (\<lambda>x. x = v) xs)) (sort (remdups xs))"
| "dummy_levels fs (IntCol xs) = map (\<lambda>v. (str_int v, map (\<lambda>x. x = v) xs)) (sort (remdups xs))"
| "dummy_levels fs (BoolCol xs) =
     map (\<lambda>v. (if v then ''True'' else ''False'', map (\<lambda>x. x = v) xs)) (sort (remdups xs))"
| "dummy_levels fs (FloatCol xs) = map (\<lambda>v. (fs v, map (\<lambda>x. x = v) xs)) (sort (remdups xs))"

definition dummies_of :: "(real \<Rightarrow> string) \<Rightarrow> dataframe \<Rightarrow> string \<Rightarrow> dataframe" where
  "dummies_of fs df name =
     concat (map (\<lambda>c. map (\<lambda>l. (name @ ''_'' @ fst l, BoolCol (snd l))) (dummy_levels fs (snd c)))
                 (filter (\<lambda>c. fst c = name) df))"

definition pd_get_dummies ::
  "(real \<Rightarrow> string) \<Rightarrow> dataframe \<Rightarrow> string list \<Rightarrow> py_exception + dataframe" where
  "pd_get_dummies fs df names =
     (if list_all (\<lambda>c. c \<in> set (map fst df)) names
      then Inr (filter (\<lambda>c. fst c \<notin> set names) df @ concat (map (dummies_of fs df) names))
      else Inl KeyError)"

text \<open>\<open>select_dtypes(include=np.number)\<close> keeps the integer and float columns; a boolean
  column is not a number for numpy.\<close>

fun is_numeric :: "column \<Rightarrow> bool" where
  "is_numeric (IntCol xs) = True"
| "is_numeric (FloatCol xs) = True"
| "is_numeric (StrCol xs) = False"
| "is_numeric (BoolCol xs) = False"

fun to_float :: "column \<Rightarrow> real list" where
  "to_float (IntCol xs) = map real_of_int xs"
| "to_float (FloatCol xs) = xs"
| "to_float (StrCol xs) = []"
| "to_float (BoolCol xs) = map (\<lambda>b. if b then 1 else 0) xs"

text \<open>\<open>features[numerical_features] = scaled\<close>: the numeric columns are replaced, in
  order, by the columns of the array; pandas raises \<open>ValueError\<close> when the shape of
  the array is not that of the selection.\<close>

fun replace_numeric :: "dataframe \<Rightarrow> real list list \<Rightarrow> dataframe" where
  "replace_numeric [] ss = []"
| "replace_numeric (c # cs) ss =
     (if is_numeric (snd c) then
        (case ss of [] \<Rightarrow> c # replace_numeric cs []
                  | s # ss' \<Rightarrow> (fst c, FloatCol s) # replace_numeric cs ss')
      else c # replace_numeric cs ss)"

definition df_set_numeric :: "dataframe \<Rightarrow> real list list \<Rightarrow> py_exception + dataframe" where
  "df_set_numeric df scaled =
     (if length scaled = length (filter (\<lambda>c. is_numeric (snd c)) df)
         \<and> list_all (\<lambda>s. length s = df_rows df) scaled
      then Inr (replace_numeric df scaled) else Inl ValueError)"

text \<open>\<open>preprocess_data(data)\<close>.\<close>

definition preprocess_data :: "preprocessing_libs \<Rightarrow> dataframe \<Rightarrow> py_exception + dataframe" where
  "preprocess_data L data =
     bind_exc (df_drop data [''ParticipantID'', ''ErrorsIdentified'', ''CompletionTime'',
                             ''Performance'']) (\<lambda>features.
     bind_exc (df_select data [''Performance'']) (\<lambda>performance.
     bind_exc (pd_get_dummies (float_str L) features [''Gender'', ''ProgrammingExperience''])
       (\<lambda>features.
     let numerical_features = filter (\<lambda>c. is_numeric (snd c)) features in
     bind_exc (fit_transform L (map (\<lambda>c. to_float (snd c)) numerical_features)) (\<lambda>scaled.
     bind_exc (df_set_numeric features scaled) (\<lambda>features.
     Inr (features @ performance))))))"

text \<open>
  \<open>StandardScaler\<close> of scikit-learn, after its documentation, over the reals. The
  standard score of a sample \<open>x\<close> is \<open>z = (x - u) / s\<close>, with \<open>u\<close> the mean of the
  column and \<open>s\<close> its standard deviation; the deviation is the biased estimator, that
  of \<open>numpy.std(x, ddof=0)\<close>, with the divisor \<open>n\<close>. A column of variance zero is
  given the scaling factor 1. \<open>fit_transform\<close> raises \<open>ValueError\<close> on a matrix
  without a column or without a row.
\<close>

definition column_mean :: "real list \<Rightarrow> real" where
  "column_mean xs = sum_list xs / real (length xs)"

definition squared_deviations :: "real list \<Rightarrow> real" where
  "squared_deviations xs = sum_list (map (\<lambda>x. (x - column_mean xs)\<^sup>2) xs)"

definition column_variance :: "real list \<Rightarrow> real" where
  "column_variance xs = squared_deviations xs / real (length xs)"

definition column_scale :: "real list \<Rightarrow> real" where
  "column_scale xs = (if column_variance xs = 0 then 1 else sqrt (column_variance xs))"

definition standard_scale_column :: "real list \<Rightarrow> real list" where
  "standard_scale_column xs = map (\<lambda>x. (x - column_mean xs) / column_scale xs) xs"




section \<open>Regression\<close>



text \<open>A Python identifier in ASCII. The reserved words are no identifiers, and
  neither are the names that Python compiles to constants.\<close>

definition identifier_start :: string where
  "identifier_start = ''abcdefghijklmnopqrstuvwxyzABCDEFGHIJKLMNOPQRSTUVWXYZ_''"

definition identifier_chars :: string where
  "identifier_chars = ''abcdefghijklmnopqrstuvwxyzABCDEFGHIJKLMNOPQRSTUVWXYZ_0123456789''"

definition python_reserved :: "string list" where
  "python_reserved =
     [''False'', ''None'', ''True'', ''and'', ''as'', ''assert'', ''async'', ''await'',
      ''break'', ''class'', ''continue'', ''def'', ''del'', ''elif'', ''else'', ''except'',
      ''finally'', ''for'', ''from'', ''global'', ''if'', ''import'', ''in'', ''is'',
      ''lambda'', ''nonlocal'', ''not'', ''or'', ''pass'', ''raise'', ''return'', ''try'',
      ''while'', ''with'', ''yield'', ''__debug__'']"

definition is_identifier :: "string \<Rightarrow> bool" where
  "is_identifier s =
     (case s of
        [] \<Rightarrow> False
      | c # cs \<Rightarrow> c \<in> set identifier_start \<and> list_all (\<lambda>x. x \<in> set identifier_chars) cs
                  \<and> s \<notin> set python_reserved)"









section \<open>The adapters to R and to semopy\<close>

text \<open>
  What a function prints is part of its result: a list of lines, each a fixed text or
  a fixed text followed by the message of an exception.
\<close>

datatype out_line = Line string | LineExc string py_exception

text \<open>An object returned by R through rpy2: a number, or a vector or list of objects.
  Indexing a number raises \<open>TypeError\<close>, an index out of range \<open>IndexError\<close>;
  \<open>list(x)\<close> of a number raises \<open>TypeError\<close>.\<close>

datatype r_object = RNum real | RVec "r_object list"

fun r_getitem :: "r_object \<Rightarrow> nat \<Rightarrow> py_exception + r_object" where
  "r_getitem (RNum x) i = Inl TypeError"
| "r_getitem (RVec xs) i = (if i < length xs then Inr (xs ! i) else Inl IndexError)"

fun py_list :: "r_object \<Rightarrow> py_exception + r_object list" where
  "py_list (RNum x) = Inl TypeError"
| "py_list (RVec xs) = Inr xs"

text \<open>The conversions of \<open>pandas2ri\<close>, and the routine \<open>IPMA\<close> of the R package: the
  global \<open>IPMA_r\<close> of the script is \<open>None\<close> when the package could not be imported.\<close>

record 'd r_bridge =
  py2rpy :: "dataframe \<Rightarrow> py_exception + 'd"
  rpy2py :: "r_object \<Rightarrow> py_exception + dataframe"

type_synonym 'd ipma_routine = "'d \<Rightarrow> string \<Rightarrow> py_exception + r_object"

text \<open>The dictionary \<open>run_IPMA_in_r\<close> returns: its keys in insertion order, each with
  its value; the empty dictionary is the empty list.\<close>

datatype ipma_value =
    EffectSizes "(string \<times> r_object option) list"
  | BottleneckTable "dataframe option"
  | Ceiling "r_object list option"
  | RawResults r_object

definition str_join :: "string \<Rightarrow> string list \<Rightarrow> string" where
  "str_join sep xs = (case xs of [] \<Rightarrow> [] | x # ys \<Rightarrow> x @ concat (map (\<lambda>s. sep @ s) ys))"

text \<open>The loop over \<open>enumerate(x_columns)\<close>: only \<open>IndexError\<close> is caught.\<close>

fun effect_sizes_loop ::
  "r_object \<Rightarrow> (nat \<times> string) list \<Rightarrow> (string \<times> r_object option) list \<Rightarrow> out_line list
     \<Rightarrow> out_line list \<times> (py_exception + (string \<times> r_object option) list)" where
  "effect_sizes_loop res [] effect_sizes out = (out, Inr effect_sizes)"
| "effect_sizes_loop res (p # rest) effect_sizes out =
     (case bind_exc (r_getitem res 0) (\<lambda>r0. r_getitem r0 (fst p)) of
        Inr v \<Rightarrow> effect_sizes_loop res rest (AList.update (snd p) (Some v) effect_sizes) out
      | Inl e \<Rightarrow>
          if e = IndexError then
            effect_sizes_loop res rest (AList.update (snd p) None effect_sizes)
              (out @ [Line (''Warning: Could not retrieve effect size for '' @ snd p
                            @ '' using direct indexing.'')])
          else (out, Inl e))"

text \<open>\<open>run_IPMA_in_r(data, x_columns, y_column)\<close>.\<close>

definition run_IPMA_in_r ::
  "'d ipma_routine option \<Rightarrow> 'd r_bridge \<Rightarrow> dataframe \<Rightarrow> string list \<Rightarrow> string
     \<Rightarrow> out_line list \<times> (py_exception + (string \<times> ipma_value) list)" where
  "run_IPMA_in_r IPMA_r B data x_columns y_column =
     (case IPMA_r of
        None \<Rightarrow> ([Line ''IPMA R package is not available. Skipping IPMA analysis.''], Inr [])
      | Some IPMA \<Rightarrow>
     (case py2rpy B data of
        Inl e \<Rightarrow> ([], Inl e)
      | Inr r_data \<Rightarrow>
     let formula_str = y_column @ '' ~ '' @ str_join ''+'' x_columns in
     (case IPMA r_data formula_str of
        Inl e \<Rightarrow> ([LineExc ''Error running IPMA in R: '' e], Inr [])
      | Inr IPMA_results_r \<Rightarrow>
     (case effect_sizes_loop IPMA_results_r (enumerate 0 x_columns) [] [] of
        (out1, Inl e) \<Rightarrow> (out1, Inl e)
      | (out1, Inr effect_sizes) \<Rightarrow>
     let bottleneck = bind_exc (r_getitem IPMA_results_r 6) (rpy2py B);
         out2 = (case bottleneck of
                   Inr t \<Rightarrow> []
                 | Inl e \<Rightarrow> [Line ''Warning: Could not retrieve bottleneck table using direct indexing.'']);
         ceiling = bind_exc (r_getitem IPMA_results_r 4) (\<lambda>c.
                   bind_exc (r_getitem c 0) (\<lambda>c0.
                   bind_exc (py_list c0) (\<lambda>x_ceiling.
                   bind_exc (r_getitem IPMA_results_r 4) (\<lambda>c'.
                   bind_exc (r_getitem c' 1) (\<lambda>c1.
                   bind_exc (py_list c1) (\<lambda>y_ceiling.
                   Inr (x_ceiling, y_ceiling)))))));
         out3 = (case ceiling of
                   Inr xy \<Rightarrow> []
                 | Inl e \<Rightarrow> [Line ''Warning: Could not retrieve ceiling coordinates using direct indexing.''])
     in (out1 @ out2 @ out3,
         Inr [(''effect_sizes'', EffectSizes effect_sizes),
              (''bottleneck_table'',
                 BottleneckTable (case bottleneck of Inr t \<Rightarrow> Some t | Inl e \<Rightarrow> None)),
              (''x_ceiling'', Ceiling (case ceiling of Inr xy \<Rightarrow> Some (fst xy) | Inl e \<Rightarrow> None)),
              (''y_ceiling'', Ceiling (case ceiling of Inr xy \<Rightarrow> Some (snd xy) | Inl e \<Rightarrow> None)),
              (''raw_r_results'', RawResults IPMA_results_r)])))))"

text \<open>
  semopy: \<open>Model\<close> is the constructor \<open>semopy.Model(description)\<close>, which parses the
  description; \<open>fit\<close> is \<open>model.fit(data)\<close>, returning the fitted model; \<open>inspect_ipma\<close>
  is \<open>model.inspect(what='ipma', target='Performance')\<close>.
\<close>

record ('m, 'i) semopy =
  Model :: "string \<Rightarrow> py_exception + 'm"
  fit :: "'m \<Rightarrow> dataframe \<Rightarrow> py_exception + 'm"
  inspect_ipma :: "'m \<Rightarrow> py_exception + 'i"

text \<open>\<open>perform_sem_ipma(data, model_specification)\<close>.\<close>

definition perform_sem_ipma ::
  "('m, 'i) semopy \<Rightarrow> dataframe \<Rightarrow> string
     \<Rightarrow> out_line list \<times> (py_exception + ('m option \<times> 'i option))" where
  "perform_sem_ipma S data model_specification =
     (case Model S model_specification of
        Inl e \<Rightarrow> ([], Inl e)
      | Inr model \<Rightarrow>
     (case fit S model data of
        Inl e \<Rightarrow> ([LineExc ''SEM Fit Error: '' e], Inr (None, None))
      | Inr model \<Rightarrow>
     (case inspect_ipma S model of
        Inl e \<Rightarrow> ([LineExc ''IPMA Error: '' e], Inr (Some model, None))
      | Inr ipma_results \<Rightarrow> ([], Inr (Some model, Some ipma_results)))))"

section \<open>The table in closed form\<close>

text \<open>
  The definitions of this section are not code of the script. They state what the two
  adjustment loops and the draws amount to, so that the properties of
  \<open>simulate_data\<close> can be proved from a closed form: \<open>upd_prefix f k xs\<close> is the array
  \<open>xs\<close> after the first \<open>k\<close> iterations of a loop that replaces element \<open>j\<close> by
  \<open>f j (xs ! j)\<close>.
\<close>

definition upd_prefix :: "(nat \<Rightarrow> 'a \<Rightarrow> 'a) \<Rightarrow> nat \<Rightarrow> 'a list \<Rightarrow> 'a list" where
  "upd_prefix f k xs = map (\<lambda>j. if j < k then f j (xs ! j) else xs ! j) [0..<length xs]"

definition se_effect :: "int list \<Rightarrow> nat \<Rightarrow> real \<Rightarrow> real" where
  "se_effect llm j x = (if llm ! j = 1 then x + 0.5 else x)"

definition anx_effect :: "int list \<Rightarrow> int list \<Rightarrow> nat \<Rightarrow> real \<Rightarrow> real" where
  "anx_effect llm herbal j x =
     (if herbal ! j = 1 then (if llm ! j = 1 then x - 0.4 else x) - 0.3
      else (if llm ! j = 1 then x - 0.4 else x))"

definition err_effect :: "int list \<Rightarrow> int list \<Rightarrow> nat \<Rightarrow> int \<Rightarrow> int" where
  "err_effect llm herbal j x =
     (if herbal ! j = 1 then (if llm ! j = 1 then x + 3 else x) + 1
      else (if llm ! j = 1 then x + 3 else x))"

definition time_effect :: "int list \<Rightarrow> nat \<Rightarrow> real \<Rightarrow> real" where
  "time_effect llm j x = (if llm ! j = 1 then x - 15 else x)"

definition beta_effect :: "int list \<Rightarrow> nat \<Rightarrow> real \<Rightarrow> real" where
  "beta_effect llm j x = (if llm ! j = 1 then x + 2 else x)"

definition fix_effect :: "int list \<Rightarrow> nat \<Rightarrow> int \<Rightarrow> int" where
  "fix_effect llm j x = (if llm ! j = 1 then x - 5 else x)"

definition dur_effect :: "int list \<Rightarrow> nat \<Rightarrow> real \<Rightarrow> real" where
  "dur_effect llm j x = (if llm ! j = 1 then x + 50 else x)"

definition hr_effect :: "int list \<Rightarrow> nat \<Rightarrow> real \<Rightarrow> real" where
  "hr_effect herbal j x = (if herbal ! j = 1 then x - 5 else x)"

definition scr_effect :: "int list \<Rightarrow> nat \<Rightarrow> real \<Rightarrow> real" where
  "scr_effect herbal j x = (if herbal ! j = 1 then x - 0.1 else x)"

text \<open>The fifteen arrays drawn by \<open>simulate_data\<close>, in the order of the draws.\<close>

record raw_draws =
  raw_age :: "int list"
  raw_gender :: "string list"
  raw_experience :: "string list"
  raw_self_efficacy :: "real list"
  raw_anxiety :: "real list"
  raw_errors :: "int list"
  raw_time :: "real list"
  raw_eeg_alpha :: "real list"
  raw_eeg_beta :: "real list"
  raw_ecg_hr :: "real list"
  raw_eda_scr :: "real list"
  raw_fixations :: "int list"
  raw_fixation_duration :: "real list"
  raw_pupil_diameter :: "real list"
  raw_blink_rate :: "real list"

definition sample_draws :: "'g np_random \<Rightarrow> nat \<Rightarrow> 'g \<Rightarrow> raw_draws \<times> 'g" where
  "sample_draws R k g0 =
     (case draws (draw_randint R 18 30) k g0 of (age, g) \<Rightarrow>
      case draws (draw_choice R [''Male'', ''Female'', ''Other'']) k g of (gender, g) \<Rightarrow>
      case draws (draw_choice R [''Beginner'', ''Intermediate'', ''Advanced'']) k g of (pe, g) \<Rightarrow>
      case draws (draw_normal R 3.5 0.5) k g of (ise, g) \<Rightarrow>
      case draws (draw_normal R 2.5 0.6) k g of (ia, g) \<Rightarrow>
      case draws (draw_randint R 5 20) k g of (err, g) \<Rightarrow>
      case draws (draw_uniform R 180 400) k g of (ct, g) \<Rightarrow>
      case draws (draw_normal R 10 2) k g of (alpha, g) \<Rightarrow>
      case draws (draw_normal R 18 3) k g of (beta, g) \<Rightarrow>
      case draws (draw_normal R 75 10) k g of (hr, g) \<Rightarrow>
      case draws (draw_normal R 0.5 0.2) k g of (scr, g) \<Rightarrow>
      case draws (draw_randint R 20 100) k g of (fix, g) \<Rightarrow>
      case draws (draw_uniform R 200 500) k g of (dur, g) \<Rightarrow>
      case draws (draw_normal R 3.5 0.5) k g of (pupil, g) \<Rightarrow>
      case draws (draw_uniform R 10 30) k g of (blink, g) \<Rightarrow>
      (\<lparr>raw_age = age, raw_gender = gender, raw_experience = pe,
        raw_self_efficacy = ise, raw_anxiety = ia, raw_errors = err, raw_time = ct,
        raw_eeg_alpha = alpha, raw_eeg_beta = beta, raw_ecg_hr = hr, raw_eda_scr = scr,
        raw_fixations = fix, raw_fixation_duration = dur, raw_pupil_diameter = pupil,
        raw_blink_rate = blink\<rparr>, g))"

definition generated_table :: "int \<Rightarrow> raw_draws \<Rightarrow> dataframe" where
  "generated_table n d =
     (let k = nat n;
          llm = concat (replicate (nat (n div 4)) [1, 1, 0, 0 :: int]);
          herbal = concat (replicate (nat (n div 4)) [1, 0, 1, 0 :: int]);
          errors = np_maximum 0 (upd_prefix (err_effect llm herbal) k (raw_errors d));
          time = np_maximum 60 (upd_prefix (time_effect llm) k (raw_time d))
      in
        [(''ParticipantID'', IntCol [1..n]),
         (''Age'', IntCol (raw_age d)),
         (''Gender'', StrCol (raw_gender d)),
         (''ProgrammingExperience'', StrCol (raw_experience d)),
         (''LLMUsage'', IntCol llm),
         (''HerbalBlend'', IntCol herbal),
         (''InitialSelfEfficacy'', FloatCol (raw_self_efficacy d)),
         (''FinalSelfEfficacy'',
            FloatCol (np_clip (upd_prefix (se_effect llm) k (raw_self_efficacy d)) 1 5)),
         (''InitialAnxiety'', FloatCol (raw_anxiety d)),
         (''FinalAnxiety'',
            FloatCol (np_clip (upd_prefix (anx_effect llm herbal) k (raw_anxiety d)) 1 4)),
         (''ErrorsIdentified'', IntCol errors),
         (''CompletionTime'', FloatCol time),
         (''Performance'', FloatCol (composite_performance errors time)),
         (''EEGAlpha'', FloatCol (raw_eeg_alpha d)),
         (''EEGBeta'', FloatCol (upd_prefix (beta_effect llm) k (raw_eeg_beta d))),
         (''ECG_HR'', FloatCol (upd_prefix (hr_effect herbal) k (raw_ecg_hr d))),
         (''EDA_SCR'', FloatCol (upd_prefix (scr_effect herbal) k (raw_eda_scr d))),
         (''POGFixations'', IntCol (upd_prefix (fix_effect llm) k (raw_fixations d))),
         (''POGFixationDuration'',
            FloatCol (upd_prefix (dur_effect llm) k (raw_fixation_duration d))),
         (''POGPupilDiameter'', FloatCol (raw_pupil_diameter d)),
         (''POGBlinkRate'', FloatCol (raw_blink_rate d))])"

text \<open>A small deterministic generator, on which the model can be run: its state
  is a counter, and each draw is computed from the counter.\<close>

definition counter_random :: "nat np_random" where
  "counter_random =
     \<lparr>init_by_seed = (\<lambda>s. s),
      draw_randint = (\<lambda>low high g. (low + int g mod (high - low), Suc g)),
      draw_choice = (\<lambda>a g. (a ! (g mod length a), Suc g)),
      draw_normal = (\<lambda>loc scale g. (loc + scale * (real (g mod 7) - 3), Suc g)),
      draw_uniform = (\<lambda>low high g. (low + (high - low) * real (g mod 4) / 4, Suc g))\<rparr>"

text \<open>The table \<open>simulate_data\<close> returns for four participants and seed 42 on that
  generator.\<close>

definition example_table :: dataframe where
  "example_table =
     [(''ParticipantID'', IntCol [1, 2, 3, 4]),
      (''Age'', IntCol [24, 25, 26, 27]),
      (''Gender'', StrCol [''Female'', ''Other'', ''Male'', ''Female'']),
      (''ProgrammingExperience'', StrCol [''Advanced'', ''Beginner'', ''Intermediate'', ''Advanced'']),
      (''LLMUsage'', IntCol [1, 1, 0, 0]),
      (''HerbalBlend'', IntCol [1, 0, 1, 0]),
      (''InitialSelfEfficacy'', FloatCol [9 / 2, 5, 2, 5 / 2]),
      (''FinalSelfEfficacy'', FloatCol [5, 5, 2, 5 / 2]),
      (''InitialAnxiety'', FloatCol [19 / 10, 5 / 2, 31 / 10, 37 / 10]),
      (''FinalAnxiety'', FloatCol [6 / 5, 21 / 10, 14 / 5, 37 / 10]),
      (''ErrorsIdentified'', IntCol [11, 11, 10, 10]),
      (''CompletionTime'', FloatCol [275, 330, 180, 235]),
      (''Performance'', FloatCol [67 / 4, 14, 21, 73 / 4]),
      (''EEGAlpha'', FloatCol [4, 6, 8, 10]),
      (''EEGBeta'', FloatCol [23, 26, 27, 9]),
      (''ECG_HR'', FloatCol [50, 65, 70, 85]),
      (''EDA_SCR'', FloatCol [4 / 5, 11 / 10, - (1 / 5), 1 / 10]),
      (''POGFixations'', IntCol [21, 22, 28, 29]),
      (''POGFixationDuration'', FloatCol [400, 475, 200, 275]),
      (''POGPupilDiameter'', FloatCol [7 / 2, 4, 9 / 2, 5]),
      (''POGBlinkRate'', FloatCol [20, 25, 10, 15])]"

section \<open>Library instances on which the model can be run\<close>

text \<open>
  None of these is code of the script: they stand for the libraries when a function
  of the model is evaluated on a concrete input. \<open>center_scaler\<close> subtracts the
  column mean and refuses a matrix without rows or without columns, as
  scikit-learn does; \<open>standard_scaler\<close> is the \<open>StandardScaler\<close> of the model;
  \<open>accepting_fit\<close> returns the names of the fitted parameters for
  every design matrix, as the default pseudo-inverse fit of statsmodels returns an
  estimate for every design matrix, and its patsy refuses every formula that the
  model leaves to the library; \<open>failing_ipma\<close> is an IPMA routine that raises;
  \<open>strict_semopy\<close> rejects in its constructor a description without the operator
  \<open>~\<close>, and fails to fit on a table without columns.
\<close>

definition center_scaler :: preprocessing_libs where
  "center_scaler =
     \<lparr>float_str = (\<lambda>x. ''x''),
      fit_transform = (\<lambda>X. if X = [] \<or> list_ex (\<lambda>c. c = []) X then Inl ValueError
                            else Inr (map (\<lambda>c. map (\<lambda>x. x - sum_list c / real (length c)) c) X))\<rparr>"



definition identity_bridge :: "dataframe r_bridge" where
  "identity_bridge = \<lparr>py2rpy = (\<lambda>df. Inr df), rpy2py = (\<lambda>r. Inl TypeError)\<rparr>"

definition failing_ipma :: "dataframe ipma_routine" where
  "failing_ipma = (\<lambda>r_data formula. Inl (ExternalError ''error in IPMA''))"

definition strict_semopy :: "(string, unit) semopy" where
  "strict_semopy =
     \<lparr>Model = (\<lambda>desc. if CHR ''~'' \<in> set desc then Inr desc
                       else Inl (ExternalError ''Invalid syntax'')),
      fit = (\<lambda>m data. if data = [] then Inl (ExternalError ''no data'') else Inr m),
      inspect_ipma = (\<lambda>m. Inr ())\<rparr>"


text \<open>The table \<open>preprocess_data\<close> returns for \<open>example_table\<close> with \<open>center_scaler\<close>.\<close>

definition example_processed :: dataframe where
  "example_processed =
     [(''Age'', FloatCol [- (3 / 2), - (1 / 2), 1 / 2, 3 / 2]),
      (''LLMUsage'', FloatCol [1 / 2, 1 / 2, - (1 / 2), - (1 / 2)]),
      (''HerbalBlend'', FloatCol [1 / 2, - (1 / 2), 1 / 2, - (1 / 2)]),
      (''InitialSelfEfficacy'', FloatCol [1, 3 / 2, - (3 / 2), - 1]),
      (''FinalSelfEfficacy'', FloatCol [11 / 8, 11 / 8, - (13 / 8), - (9 / 8)]),
      (''InitialAnxiety'', FloatCol [- (9 / 10), - (3 / 10), 3 / 10, 9 / 10]),
      (''FinalAnxiety'', FloatCol [- (5 / 4), - (7 / 20), 7 / 20, 5 / 4]),
      (''EEGAlpha'', FloatCol [- 3, - 1, 1, 3]),
      (''EEGBeta'', FloatCol [7 / 4, 19 / 4, 23 / 4, - (49 / 4)]),
      (''ECG_HR'', FloatCol [- (35 / 2), - (5 / 2), 5 / 2, 35 / 2]),
      (''EDA_SCR'', FloatCol [7 / 20, 13 / 20, - (13 / 20), - (7 / 20)]),
      (''POGFixations'', FloatCol [- 4, - 3, 3, 4]),
      (''POGFixationDuration'', FloatCol [125 / 2, 275 / 2, - (275 / 2), - (125 / 2)]),
      (''POGPupilDiameter'', FloatCol [- (3 / 4), - (1 / 4), 1 / 4, 3 / 4]),
      (''POGBlinkRate'', FloatCol [5 / 2, 15 / 2, - (15 / 2), - (5 / 2)]),
      (''Gender_Female'', BoolCol [True, False, False, True]),
      (''Gender_Male'', BoolCol [False, False, True, False]),
      (''Gender_Other'', BoolCol [False, True, False, False]),
      (''ProgrammingExperience_Advanced'', BoolCol [True, False, False, True]),
      (''ProgrammingExperience_Beginner'', BoolCol [False, True, False, False]),
      (''ProgrammingExperience_Intermediate'', BoolCol [False, False, True, False]),
      (''Performance'', FloatCol [67 / 4, 14, 21, 73 / 4])]"


section \<open>Lemmas on the loops and the draws\<close>

lemma draws_length: "draws d k g = (xs, g') \<Longrightarrow> length xs = k"
  by (induction k arbitrary: g xs g') (auto split: prod.splits)

lemma length_draws [simp]: "length (fst (draws d k g)) = k"
  by (cases "draws d k g") (simp add: draws_length)

lemma bind_exc_simps [simp]:
  "bind_exc (Inl e) f = Inl e" "bind_exc (Inr x) f = f x"
  by (simp_all add: bind_exc_def)

lemma for_each_append:
  "for_each body (xs @ ys) s = bind_exc (for_each body xs s) (for_each body ys)"
  by (induction xs arbitrary: s) (auto simp: bind_exc_def split: sum.splits)

lemma length_upd_prefix [simp]: "length (upd_prefix f k xs) = length xs"
  by (simp add: upd_prefix_def)

lemma upd_prefix_0 [simp]: "upd_prefix f 0 xs = xs"
  by (simp add: upd_prefix_def map_nth)

lemma nth_upd_prefix:
  "j < length xs \<Longrightarrow> upd_prefix f k xs ! j = (if j < k then f j (xs ! j) else xs ! j)"
  by (simp add: upd_prefix_def)

lemma adjust_measures_step:
  assumes "k < length llm" "k < length herbal"
    "k < length a" "k < length b" "k < length c" "k < length d"
  shows "adjust_measures llm herbal k
           (upd_prefix (se_effect llm) k a, upd_prefix (anx_effect llm herbal) k b,
            upd_prefix (err_effect llm herbal) k c, upd_prefix (time_effect llm) k d)
         = Inr (upd_prefix (se_effect llm) (Suc k) a, upd_prefix (anx_effect llm herbal) (Suc k) b,
            upd_prefix (err_effect llm herbal) (Suc k) c, upd_prefix (time_effect llm) (Suc k) d)"
  using assms
  by (auto simp: adjust_measures_def np_getitem_def np_iadd_def np_isub_def
        nth_upd_prefix nth_list_update less_Suc_eq
        se_effect_def anx_effect_def err_effect_def time_effect_def
      intro!: nth_equalityI)


lemma adjust_signals_step:
  assumes "k < length llm" "k < length herbal"
    "k < length a" "k < length b" "k < length c" "k < length d" "k < length e"
  shows "adjust_signals llm herbal k
           (upd_prefix (beta_effect llm) k a, upd_prefix (fix_effect llm) k b,
            upd_prefix (dur_effect llm) k c, upd_prefix (hr_effect herbal) k d,
            upd_prefix (scr_effect herbal) k e)
         = Inr (upd_prefix (beta_effect llm) (Suc k) a, upd_prefix (fix_effect llm) (Suc k) b,
            upd_prefix (dur_effect llm) (Suc k) c, upd_prefix (hr_effect herbal) (Suc k) d,
            upd_prefix (scr_effect herbal) (Suc k) e)"
  using assms
  by (auto simp: adjust_signals_def np_getitem_def np_iadd_def np_isub_def
        nth_upd_prefix nth_list_update less_Suc_eq
        beta_effect_def fix_effect_def dur_effect_def hr_effect_def scr_effect_def
      intro!: nth_equalityI)

lemma measures_loop:
  assumes "k \<le> length llm" "k \<le> length herbal"
    "k \<le> length a" "k \<le> length b" "k \<le> length c" "k \<le> length d"
  shows "for_each (adjust_measures llm herbal) [0..<k] (a, b, c, d)
         = Inr (upd_prefix (se_effect llm) k a, upd_prefix (anx_effect llm herbal) k b,
            upd_prefix (err_effect llm herbal) k c, upd_prefix (time_effect llm) k d)"
  using assms
proof (induction k)
  case 0
  then show ?case by simp
next
  case (Suc k)
  then show ?case
    by (simp add: for_each_append adjust_measures_step)
qed

lemma signals_loop:
  assumes "k \<le> length llm" "k \<le> length herbal"
    "k \<le> length a" "k \<le> length b" "k \<le> length c" "k \<le> length d" "k \<le> length e"
  shows "for_each (adjust_signals llm herbal) [0..<k] (a, b, c, d, e)
         = Inr (upd_prefix (beta_effect llm) k a, upd_prefix (fix_effect llm) k b,
            upd_prefix (dur_effect llm) k c, upd_prefix (hr_effect herbal) k d,
            upd_prefix (scr_effect herbal) k e)"
  using assms
proof (induction k)
  case 0
  then show ?case by simp
next
  case (Suc k)
  then show ?case
    by (simp add: for_each_append adjust_signals_step)
qed

lemma adjust_measures_out_of_range:
  "length llm \<le> i \<Longrightarrow> adjust_measures llm herbal i s = Inl IndexError"
  by (cases s) (simp add: adjust_measures_def np_getitem_def)

lemma measures_loop_fails:
  assumes "length llm < n" "length llm \<le> length herbal"
    "length llm \<le> length a" "length llm \<le> length b"
    "length llm \<le> length c" "length llm \<le> length d"
  shows "for_each (adjust_measures llm herbal) [0..<n] (a, b, c, d) = Inl IndexError"
proof -
  define m where "m = length llm"
  have "[0..<m + (n - m)] = [0..<m] @ [m..<m + (n - m)]"
    by (rule upt_add_eq_append) simp
  moreover have "m + (n - m) = n"
    using assms(1) by (simp add: m_def)
  moreover have "[m..<n] = m # [Suc m..<n]"
    using assms(1) by (simp add: m_def upt_conv_Cons)
  ultimately have split: "[0..<n] = [0..<m] @ m # [Suc m..<n]"
    by simp
  have "for_each (adjust_measures llm herbal) [0..<m] (a, b, c, d)
         = Inr (upd_prefix (se_effect llm) m a, upd_prefix (anx_effect llm herbal) m b,
            upd_prefix (err_effect llm herbal) m c, upd_prefix (time_effect llm) m d)"
    using assms by (intro measures_loop) (simp_all add: m_def)
  then show ?thesis
    unfolding split for_each_append
    by (simp add: adjust_measures_out_of_range m_def)
qed

lemma length_tiling [simp]: "length (concat (replicate k [a, b, c, d])) = 4 * k"
  by (induction k) simp_all

lemma simulate_data_bad_seed:
  "\<not> (0 \<le> seed \<and> seed < 2 ^ 32) \<Longrightarrow> simulate_data R g0 n seed = Inl ValueError"
  by (cases "0 \<le> seed") (simp_all add: simulate_data_def np_random_seed_def)

lemma simulate_data_negative:
  "n < 0 \<Longrightarrow> simulate_data R g0 n seed = Inl ValueError"
  by (simp add: simulate_data_def np_random_seed_def np_random_randint_def)

lemma tiling_short:
  assumes "0 \<le> n" "n mod 4 \<noteq> 0"
  shows "4 * nat (n div 4) < nat n"
proof -
  have "4 * nat (n div 4) = nat (4 * (n div 4))"
    by (simp add: nat_mult_distrib)
  moreover have "4 * (n div 4) < n"
    using mult_div_mod_eq [of 4 n] pos_mod_sign [of 4 n] assms by linarith
  moreover have "0 \<le> 4 * (n div 4)"
    using assms by simp
  ultimately show ?thesis
    by linarith
qed

lemma tiling_full:
  assumes "0 \<le> n" "n mod 4 = 0"
  shows "4 * nat (n div 4) = nat n"
proof -
  have "4 * nat (n div 4) = nat (4 * (n div 4))"
    by (simp add: nat_mult_distrib)
  moreover have "4 * (n div 4) = n"
    using mult_div_mod_eq [of 4 n] assms by linarith
  ultimately show ?thesis
    by simp
qed

lemma simulate_data_not_multiple:
  assumes "0 \<le> seed" "seed < 2 ^ 32" "0 \<le> n" "n mod 4 \<noteq> 0"
  shows "simulate_data R g0 n seed = Inl IndexError"
proof -
  have short: "4 * nat (n div 4) < nat n" "4 * nat (n div 4) \<le> nat n"
    using tiling_short [OF assms(3,4)] by simp_all
  show ?thesis
    using assms(1-3) short
    by (simp add: simulate_data_def np_random_seed_def np_random_randint_def
        np_random_choice_def np_random_normal_def np_random_uniform_def
        case_prod_beta py_range_def measures_loop_fails)
qed

lemma length_upto_1 [simp]: "length [1..n] = nat n"
  by simp

lemma simulate_data_multiple:
  assumes "0 \<le> seed" "seed < 2 ^ 32" "0 \<le> n" "n mod 4 = 0"
  shows "simulate_data R g0 n seed =
           Inr (generated_table n (fst (sample_draws R (nat n) (init_by_seed R (nat seed)))),
                snd (sample_draws R (nat n) (init_by_seed R (nat seed))))"
proof -
  have full: "4 * nat (n div 4) = nat n"
    using tiling_full [OF assms(3,4)] .
  show ?thesis
    using assms(1-3)
    by (simp add: simulate_data_def np_random_seed_def np_random_randint_def
        np_random_choice_def np_random_normal_def np_random_uniform_def
        case_prod_beta py_range_def measures_loop signals_loop full
        pd_DataFrame_def df_rows_def np_clip_def np_maximum_def composite_performance_def
        generated_table_def sample_draws_def Let_def)
qed


lemma simulate_data_InrD:
  assumes "simulate_data R g0 n seed = Inr (df, g')"
  shows "0 \<le> n" and "n mod 4 = 0" and "0 \<le> seed" and "seed < 2 ^ 32"
    and "df = generated_table n (fst (sample_draws R (nat n) (init_by_seed R (nat seed))))"
proof -
  have seed: "0 \<le> seed \<and> seed < 2 ^ 32"
    using assms simulate_data_bad_seed [of seed R g0 n] by auto
  have n: "0 \<le> n"
    using assms simulate_data_negative [of n R g0 seed] by (cases "n < 0") auto
  have m: "n mod 4 = 0"
    using assms seed n simulate_data_not_multiple [of seed n R g0] by (cases "n mod 4 = 0") auto
  show "0 \<le> n" "n mod 4 = 0" "0 \<le> seed" "seed < 2 ^ 32"
    using seed n m by simp_all
  show "df = generated_table n (fst (sample_draws R (nat n) (init_by_seed R (nat seed))))"
    using assms seed n m simulate_data_multiple [of seed n R g0] by simp
qed

lemma sample_draws_lengths:
  "length (raw_self_efficacy (fst (sample_draws R k g))) = k"
  "length (raw_anxiety (fst (sample_draws R k g))) = k"
  by (simp_all add: sample_draws_def case_prod_beta)

lemma generated_table_columns:
  "df_getitem (generated_table n d) ''LLMUsage''
     = Inr (IntCol (concat (replicate (nat (n div 4)) [1, 1, 0, 0])))"
  "df_getitem (generated_table n d) ''HerbalBlend''
     = Inr (IntCol (concat (replicate (nat (n div 4)) [1, 0, 1, 0])))"
  "df_getitem (generated_table n d) ''InitialSelfEfficacy'' = Inr (FloatCol (raw_self_efficacy d))"
  "df_getitem (generated_table n d) ''InitialAnxiety'' = Inr (FloatCol (raw_anxiety d))"
  "df_getitem (generated_table n d) ''FinalSelfEfficacy''
     = Inr (FloatCol (np_clip (upd_prefix
         (se_effect (concat (replicate (nat (n div 4)) [1, 1, 0, 0]))) (nat n)
         (raw_self_efficacy d)) 1 5))"
  "df_getitem (generated_table n d) ''FinalAnxiety''
     = Inr (FloatCol (np_clip (upd_prefix
         (anx_effect (concat (replicate (nat (n div 4)) [1, 1, 0, 0]))
            (concat (replicate (nat (n div 4)) [1, 0, 1, 0]))) (nat n)
         (raw_anxiety d)) 1 4))"
  by (simp_all add: generated_table_def df_getitem_def Let_def)

lemma df_rows_generated_table: "df_rows (generated_table n d) = nat n"
  by (simp add: generated_table_def df_rows_def Let_def)

lemma np_clip_bounds:
  assumes "lo \<le> hi"
  shows "list_all (\<lambda>x. lo \<le> x \<and> x \<le> hi) (np_clip xs lo hi)"
  using assms by (induction xs) (auto simp: np_clip_def)

lemma length_np_clip [simp]: "length (np_clip xs lo hi) = length xs"
  by (simp add: np_clip_def)

lemma count_list_tiling:
  "count_list (concat (replicate k xs)) a = k * count_list xs a"
  by (induction k) (simp_all add: count_list_append)

lemma clip_nth: "i < length xs \<Longrightarrow> np_clip xs lo hi ! i = min (max (xs ! i) lo) hi"
  by (simp add: np_clip_def)

lemma se_effect_sum: "se_effect llm i x = x + (if llm ! i = 1 then 0.5 else 0)"
  by (simp add: se_effect_def)

lemma anx_effect_sum:
  "anx_effect llm herbal i x
     = x + ((if llm ! i = 1 then - 0.4 else 0) + (if herbal ! i = 1 then - 0.3 else 0))"
  by (simp add: anx_effect_def)

lemma simulate_data_example: "simulate_data counter_random 0 4 42 = Inr (example_table, 102)"
  by code_simp

section \<open>The claims on the data simulation\<close>

text \<open>
  C1. Two calls of \<open>simulate_data\<close> with the same participant count and the same seed
  give the same result, whatever state the global generator is in when each call
  starts: the first statement of the function reseeds the generator, and every draw
  is taken from it. The equality covers the table, field for field, the exception
  when there is one, and the state the generator is left in.
\<close>

theorem simulate_data_deterministic:
  "simulate_data R g n seed = simulate_data R g' n seed"
proof (cases "0 \<le> seed \<and> seed < 2 ^ 32")
  case False
  then show ?thesis
    by (simp add: simulate_data_bad_seed)
next
  case seed: True
  show ?thesis
  proof (cases "n < 0")
    case True
    then show ?thesis
      by (simp add: simulate_data_negative)
  next
    case False
    then have n: "0 \<le> n" by simp
    show ?thesis
    proof (cases "n mod 4 = 0")
      case True
      with seed n show ?thesis
        by (simp add: simulate_data_multiple)
    next
      case False
      with seed n show ?thesis
        by (simp add: simulate_data_not_multiple)
    qed
  qed
qed

text \<open>
  C2. Whenever \<open>simulate_data\<close> returns a table, every value of its column
  FinalSelfEfficacy lies in \<open>[1, 5]\<close> and every value of its column FinalAnxiety lies
  in \<open>[1, 4]\<close>; both columns have one value for each participant.
\<close>

theorem final_measures_clipped:
  assumes "simulate_data R g n seed = Inr (df, g')"
  shows "\<exists>se anx.
           df_getitem df ''FinalSelfEfficacy'' = Inr (FloatCol se)
         \<and> df_getitem df ''FinalAnxiety'' = Inr (FloatCol anx)
         \<and> length se = nat n \<and> length anx = nat n
         \<and> list_all (\<lambda>x. 1 \<le> x \<and> x \<le> 5) se
         \<and> list_all (\<lambda>x. 1 \<le> x \<and> x \<le> 4) anx"
proof -
  note D = simulate_data_InrD [OF assms]
  show ?thesis
    unfolding D(5)
    by (simp add: generated_table_columns np_clip_bounds sample_draws_lengths)
qed

theorem final_measures_clipped_witness:
  "simulate_data counter_random 0 4 42 = Inr (example_table, 102)
   \<and> (\<exists>se anx.
           df_getitem example_table ''FinalSelfEfficacy'' = Inr (FloatCol se)
         \<and> df_getitem example_table ''FinalAnxiety'' = Inr (FloatCol anx)
         \<and> length se = nat 4 \<and> length anx = nat 4
         \<and> list_all (\<lambda>x. 1 \<le> x \<and> x \<le> 5) se
         \<and> list_all (\<lambda>x. 1 \<le> x \<and> x \<le> 4) anx)"
  by (rule conjI [OF simulate_data_example final_measures_clipped [OF simulate_data_example]])

text \<open>
  C3. Whenever \<open>simulate_data\<close> returns a table, in every row the stored final
  self-efficacy is the baseline plus the adjustment selected by the LLM flag, clipped
  to \<open>[1, 5]\<close>, and the stored final anxiety is the baseline plus the sum of the
  adjustments selected by the two flags, clipped to \<open>[1, 4]\<close>: the clipping is applied
  to the adjusted value, never to the baseline.
\<close>

theorem adjustments_before_clipping:
  assumes "simulate_data R g n seed = Inr (df, g')"
  shows "\<exists>llm herbal ise ia fse fa.
           df_getitem df ''LLMUsage'' = Inr (IntCol llm)
         \<and> df_getitem df ''HerbalBlend'' = Inr (IntCol herbal)
         \<and> df_getitem df ''InitialSelfEfficacy'' = Inr (FloatCol ise)
         \<and> df_getitem df ''InitialAnxiety'' = Inr (FloatCol ia)
         \<and> df_getitem df ''FinalSelfEfficacy'' = Inr (FloatCol fse)
         \<and> df_getitem df ''FinalAnxiety'' = Inr (FloatCol fa)
         \<and> length llm = nat n \<and> length herbal = nat n \<and> length ise = nat n
         \<and> length ia = nat n \<and> length fse = nat n \<and> length fa = nat n
         \<and> (\<forall>i < nat n.
               fse ! i = min (max (ise ! i + (if llm ! i = 1 then 0.5 else 0)) 1) 5
             \<and> fa ! i = min (max (ia ! i + ((if llm ! i = 1 then - 0.4 else 0)
                                          + (if herbal ! i = 1 then - 0.3 else 0))) 1) 4)"
proof -
  note D = simulate_data_InrD [OF assms]
  define d where "d = fst (sample_draws R (nat n) (init_by_seed R (nat seed)))"
  define llm where "llm = concat (replicate (nat (n div 4)) [1, 1, 0, 0 :: int])"
  define herbal where "herbal = concat (replicate (nat (n div 4)) [1, 0, 1, 0 :: int])"
  define fse where "fse = np_clip (upd_prefix (se_effect llm) (nat n) (raw_self_efficacy d)) 1 5"
  define fa where "fa = np_clip (upd_prefix (anx_effect llm herbal) (nat n) (raw_anxiety d)) 1 4"
  have df: "df = generated_table n d"
    using D(5) by (simp only: d_def)
  have full: "4 * nat (n div 4) = nat n"
    using tiling_full [OF D(1,2)] .
  have c1: "df_getitem df ''LLMUsage'' = Inr (IntCol llm)"
    and c2: "df_getitem df ''HerbalBlend'' = Inr (IntCol herbal)"
    and c3: "df_getitem df ''InitialSelfEfficacy'' = Inr (FloatCol (raw_self_efficacy d))"
    and c4: "df_getitem df ''InitialAnxiety'' = Inr (FloatCol (raw_anxiety d))"
    and c5: "df_getitem df ''FinalSelfEfficacy'' = Inr (FloatCol fse)"
    and c6: "df_getitem df ''FinalAnxiety'' = Inr (FloatCol fa)"
    unfolding df llm_def herbal_def fse_def fa_def
    by (rule generated_table_columns)+
  have l1: "length llm = nat n" and l2: "length herbal = nat n"
    using full by (simp_all add: llm_def herbal_def)
  have l3: "length (raw_self_efficacy d) = nat n" and l4: "length (raw_anxiety d) = nat n"
    by (simp_all add: d_def sample_draws_lengths)
  have l5: "length fse = nat n" and l6: "length fa = nat n"
    by (simp_all add: fse_def fa_def l3 l4)
  have rows: "\<forall>i < nat n.
      fse ! i = min (max (raw_self_efficacy d ! i + (if llm ! i = 1 then 0.5 else 0)) 1) 5
    \<and> fa ! i = min (max (raw_anxiety d ! i + ((if llm ! i = 1 then - 0.4 else 0)
                                          + (if herbal ! i = 1 then - 0.3 else 0))) 1) 4"
  proof (intro allI impI conjI)
    fix i
    assume i: "i < nat n"
    show "fse ! i = min (max (raw_self_efficacy d ! i + (if llm ! i = 1 then 0.5 else 0)) 1) 5"
      using i by (simp add: fse_def clip_nth nth_upd_prefix l3 se_effect_sum)
    show "fa ! i = min (max (raw_anxiety d ! i + ((if llm ! i = 1 then - 0.4 else 0)
                                          + (if herbal ! i = 1 then - 0.3 else 0))) 1) 4"
      using i by (simp add: fa_def clip_nth nth_upd_prefix l4 anx_effect_sum)
  qed
  from c1 c2 c3 c4 c5 c6 l1 l2 l3 l4 l5 l6 rows show ?thesis
    by blast
qed

theorem adjustments_before_clipping_witness:
  "simulate_data counter_random 0 4 42 = Inr (example_table, 102)
   \<and> (\<exists>llm herbal ise ia fse fa.
           df_getitem example_table ''LLMUsage'' = Inr (IntCol llm)
         \<and> df_getitem example_table ''HerbalBlend'' = Inr (IntCol herbal)
         \<and> df_getitem example_table ''InitialSelfEfficacy'' = Inr (FloatCol ise)
         \<and> df_getitem example_table ''InitialAnxiety'' = Inr (FloatCol ia)
         \<and> df_getitem example_table ''FinalSelfEfficacy'' = Inr (FloatCol fse)
         \<and> df_getitem example_table ''FinalAnxiety'' = Inr (FloatCol fa)
         \<and> length llm = nat 4 \<and> length herbal = nat 4 \<and> length ise = nat 4
         \<and> length ia = nat 4 \<and> length fse = nat 4 \<and> length fa = nat 4
         \<and> (\<forall>i < nat 4.
               fse ! i = min (max (ise ! i + (if llm ! i = 1 then 0.5 else 0)) 1) 5
             \<and> fa ! i = min (max (ia ! i + ((if llm ! i = 1 then - 0.4 else 0)
                                          + (if herbal ! i = 1 then - 0.3 else 0))) 1) 4))"
  by (rule conjI [OF simulate_data_example adjustments_before_clipping [OF simulate_data_example]])

text \<open>
  C4. For 40 participants and seed 42, \<open>simulate_data\<close> returns a table whose column
  LLMUsage holds exactly 20 ones and 20 zeros, and so does its column HerbalBlend.
  This holds for every generator: the two columns are not drawn.
\<close>

theorem balanced_assignment_40_42:
  "\<exists>df g' llm herbal.
       simulate_data R g 40 42 = Inr (df, g')
     \<and> df_getitem df ''LLMUsage'' = Inr (IntCol llm)
     \<and> df_getitem df ''HerbalBlend'' = Inr (IntCol herbal)
     \<and> length llm = 40 \<and> count_list llm 1 = 20 \<and> count_list llm 0 = 20
     \<and> length herbal = 40 \<and> count_list herbal 1 = 20 \<and> count_list herbal 0 = 20"
proof -
  have "simulate_data R g 40 42 =
          Inr (generated_table 40 (fst (sample_draws R (nat 40) (init_by_seed R (nat 42)))),
               snd (sample_draws R (nat 40) (init_by_seed R (nat 42))))"
    by (rule simulate_data_multiple) simp_all
  then show ?thesis
    by (simp add: generated_table_columns count_list_tiling)
qed

text \<open>
  C5 does not hold of the code. For six participants, a positive count that is not
  a multiple of 4, \<open>simulate_data\<close> returns no table: the treatment arrays are
  tiled from \<open>n_participants // 4\<close> blocks and hold four entries, while the first
  adjustment loop runs over \<open>range(n_participants)\<close> and reads \<open>llm_usage[4]\<close>,
  which raises \<open>IndexError\<close>. Lemma \<open>simulate_data_not_multiple\<close> shows the same
  for every such count and every generator.
\<close>

theorem simulate_data_raises_at_six:
  "(0 :: int) < 6 \<and> (6 :: int) mod 4 \<noteq> 0
   \<and> simulate_data counter_random 0 6 42 = Inl IndexError"
  by code_simp

section \<open>Preprocessing: what is dropped and what is passed through\<close>

lemma bind_exc_InrD: "bind_exc m f = Inr y \<Longrightarrow> \<exists>x. m = Inr x \<and> f x = Inr y"
  by (cases m) simp_all

lemma map_fst_replace_numeric: "map fst (replace_numeric df ss) = map fst df"
  by (induction df ss rule: replace_numeric.induct) (auto split: list.splits)

lemma filter_name_empty: "x \<notin> set (map fst xs) \<Longrightarrow> filter (\<lambda>c. fst c = x) xs = []"
  by (induction xs) auto

lemma dummies_of_names:
  "x \<in> set (map fst (dummies_of fs df name)) \<Longrightarrow> \<exists>l. x = name @ ''_'' @ l"
  by (auto simp: dummies_of_def)

lemma preprocess_data_shape:
  assumes "preprocess_data L df = Inr out"
  shows "\<exists>feats. out = feats @ filter (\<lambda>p. fst p = ''Performance'') df
         \<and> (\<forall>x \<in> set (map fst feats).
              (x \<in> set (map fst df) \<and> x \<noteq> ''ParticipantID'' \<and> x \<noteq> ''ErrorsIdentified''
                 \<and> x \<noteq> ''CompletionTime'' \<and> x \<noteq> ''Performance'')
            \<or> (\<exists>l. x = ''Gender'' @ ''_'' @ l)
            \<or> (\<exists>l. x = ''ProgrammingExperience'' @ ''_'' @ l))"
proof -
  from assms obtain F where F: "df_drop df [''ParticipantID'', ''ErrorsIdentified'',
      ''CompletionTime'', ''Performance''] = Inr F"
    and 1: "bind_exc (df_select df [''Performance'']) (\<lambda>performance.
       bind_exc (pd_get_dummies (float_str L) F [''Gender'', ''ProgrammingExperience''])
         (\<lambda>features.
       let numerical_features = filter (\<lambda>c. is_numeric (snd c)) features in
       bind_exc (fit_transform L (map (\<lambda>c. to_float (snd c)) numerical_features)) (\<lambda>scaled.
       bind_exc (df_set_numeric features scaled) (\<lambda>features.
       Inr (features @ performance))))) = Inr out"
    unfolding preprocess_data_def by (blast dest: bind_exc_InrD)
  from 1 obtain P where P: "df_select df [''Performance''] = Inr P"
    and 2: "bind_exc (pd_get_dummies (float_str L) F [''Gender'', ''ProgrammingExperience''])
         (\<lambda>features.
       let numerical_features = filter (\<lambda>c. is_numeric (snd c)) features in
       bind_exc (fit_transform L (map (\<lambda>c. to_float (snd c)) numerical_features)) (\<lambda>scaled.
       bind_exc (df_set_numeric features scaled) (\<lambda>features.
       Inr (features @ P)))) = Inr out"
    by (blast dest: bind_exc_InrD)
  from 2 obtain G where G: "pd_get_dummies (float_str L) F [''Gender'', ''ProgrammingExperience'']
       = Inr G"
    and 3: "bind_exc (fit_transform L (map (\<lambda>c. to_float (snd c))
               (filter (\<lambda>c. is_numeric (snd c)) G))) (\<lambda>scaled.
       bind_exc (df_set_numeric G scaled) (\<lambda>features. Inr (features @ P))) = Inr out"
    unfolding Let_def by (blast dest: bind_exc_InrD)
  from 3 obtain scaled H where H: "df_set_numeric G scaled = Inr H" and out: "out = H @ P"
    by (auto dest!: bind_exc_InrD)
  have Pdef: "P = filter (\<lambda>p. fst p = ''Performance'') df"
    using P by (simp add: df_select_def split: if_splits)
  have Fdef: "F = filter (\<lambda>c. fst c \<notin> set [''ParticipantID'', ''ErrorsIdentified'',
      ''CompletionTime'', ''Performance'']) df"
    using F by (simp add: df_drop_def split: if_splits)
  have Gdef: "G = filter (\<lambda>c. fst c \<notin> set [''Gender'', ''ProgrammingExperience'']) F
      @ dummies_of (float_str L) F ''Gender''
      @ dummies_of (float_str L) F ''ProgrammingExperience''"
    using G by (simp add: pd_get_dummies_def split: if_splits)
  have Hnames: "map fst H = map fst G"
    using H by (auto simp: df_set_numeric_def map_fst_replace_numeric split: if_splits)
  have "\<forall>x \<in> set (map fst H).
              (x \<in> set (map fst df) \<and> x \<noteq> ''ParticipantID'' \<and> x \<noteq> ''ErrorsIdentified''
                 \<and> x \<noteq> ''CompletionTime'' \<and> x \<noteq> ''Performance'')
            \<or> (\<exists>l. x = ''Gender'' @ ''_'' @ l)
            \<or> (\<exists>l. x = ''ProgrammingExperience'' @ ''_'' @ l)"
  proof
    fix x
    assume "x \<in> set (map fst H)"
    then have "x \<in> set (map fst (filter (\<lambda>c. fst c \<notin> set [''Gender'', ''ProgrammingExperience'']) F))
        \<or> x \<in> set (map fst (dummies_of (float_str L) F ''Gender''))
        \<or> x \<in> set (map fst (dummies_of (float_str L) F ''ProgrammingExperience''))"
      unfolding Hnames Gdef by auto
    then show "(x \<in> set (map fst df) \<and> x \<noteq> ''ParticipantID'' \<and> x \<noteq> ''ErrorsIdentified''
                 \<and> x \<noteq> ''CompletionTime'' \<and> x \<noteq> ''Performance'')
            \<or> (\<exists>l. x = ''Gender'' @ ''_'' @ l)
            \<or> (\<exists>l. x = ''ProgrammingExperience'' @ ''_'' @ l)"
    proof (elim disjE)
      assume "x \<in> set (map fst (filter (\<lambda>c. fst c \<notin> set [''Gender'', ''ProgrammingExperience'']) F))"
      then have "x \<in> set (map fst F)"
        by auto
      then show ?thesis
        unfolding Fdef by auto
    next
      assume "x \<in> set (map fst (dummies_of (float_str L) F ''Gender''))"
      then show ?thesis
        by (blast dest: dummies_of_names)
    next
      assume "x \<in> set (map fst (dummies_of (float_str L) F ''ProgrammingExperience''))"
      then show ?thesis
        by (blast dest: dummies_of_names)
    qed
  qed
  with out Pdef show ?thesis
    by blast
qed

lemma generated_table_performance:
  "\<exists>perf. df_getitem (generated_table n d) ''Performance'' = Inr (FloatCol perf)
     \<and> filter (\<lambda>p. fst p = ''Performance'') (generated_table n d) = [(''Performance'', FloatCol perf)]"
  by (simp add: generated_table_def df_getitem_def Let_def)

lemma preprocess_data_example: "preprocess_data center_scaler example_table = Inr example_processed"
  by code_simp

text \<open>
  C7. For a table returned by \<open>simulate_data\<close>, the table returned by
  \<open>preprocess_data\<close> has no column ParticipantID, ErrorsIdentified or CompletionTime,
  and it has exactly one column Performance, which is the Performance column of the
  input, unchanged. This holds whatever the scaler computes.
\<close>

theorem preprocess_data_frame:
  assumes "simulate_data R g n seed = Inr (df, g')"
    and "preprocess_data L df = Inr out"
  shows "''ParticipantID'' \<notin> set (map fst out)
       \<and> ''ErrorsIdentified'' \<notin> set (map fst out)
       \<and> ''CompletionTime'' \<notin> set (map fst out)
       \<and> (\<exists>perf. df_getitem df ''Performance'' = Inr (FloatCol perf)
            \<and> filter (\<lambda>c. fst c = ''Performance'') out = [(''Performance'', FloatCol perf)])"
proof -
  note D = simulate_data_InrD [OF assms(1)]
  from preprocess_data_shape [OF assms(2)] obtain feats
    where out: "out = feats @ filter (\<lambda>p. fst p = ''Performance'') df"
      and names: "\<forall>x \<in> set (map fst feats).
              (x \<in> set (map fst df) \<and> x \<noteq> ''ParticipantID'' \<and> x \<noteq> ''ErrorsIdentified''
                 \<and> x \<noteq> ''CompletionTime'' \<and> x \<noteq> ''Performance'')
            \<or> (\<exists>l. x = ''Gender'' @ ''_'' @ l)
            \<or> (\<exists>l. x = ''ProgrammingExperience'' @ ''_'' @ l)"
    by blast
  from generated_table_performance obtain perf
    where perf: "df_getitem df ''Performance'' = Inr (FloatCol perf)"
      and one: "filter (\<lambda>p. fst p = ''Performance'') df = [(''Performance'', FloatCol perf)]"
    unfolding D(5) by blast
  have a: "''ParticipantID'' \<notin> set (map fst feats)"
    and b: "''ErrorsIdentified'' \<notin> set (map fst feats)"
    and c: "''CompletionTime'' \<notin> set (map fst feats)"
    and d: "''Performance'' \<notin> set (map fst feats)"
    using names by fastforce+
  have "filter (\<lambda>c. fst c = ''Performance'') out = [(''Performance'', FloatCol perf)]"
    unfolding out using filter_name_empty [OF d] one by simp
  moreover have "''ParticipantID'' \<notin> set (map fst out)"
    "''ErrorsIdentified'' \<notin> set (map fst out)" "''CompletionTime'' \<notin> set (map fst out)"
    unfolding out using a b c one by simp_all
  ultimately show ?thesis
    using perf by blast
qed

theorem preprocess_data_frame_witness:
  "simulate_data counter_random 0 4 42 = Inr (example_table, 102)
   \<and> preprocess_data center_scaler example_table = Inr example_processed
   \<and> (''ParticipantID'' \<notin> set (map fst example_processed)
       \<and> ''ErrorsIdentified'' \<notin> set (map fst example_processed)
       \<and> ''CompletionTime'' \<notin> set (map fst example_processed)
       \<and> (\<exists>perf. df_getitem example_table ''Performance'' = Inr (FloatCol perf)
            \<and> filter (\<lambda>c. fst c = ''Performance'') example_processed
                = [(''Performance'', FloatCol perf)]))"
  by (rule conjI [OF simulate_data_example conjI [OF preprocess_data_example
        preprocess_data_frame [OF simulate_data_example preprocess_data_example]]])

section \<open>Preprocessing: the scaled columns\<close>

text \<open>The standard scores of a column that is not empty have the mean 0; their
  population deviation is 1 unless the column is constant, and then they are 0.\<close>

lemma length_standard_scale_column [simp]: "length (standard_scale_column xs) = length xs"
  by (simp add: standard_scale_column_def)











lemma preprocess_data_scaled:
  assumes "preprocess_data L df = Inr out"
  shows "\<exists>G scaled.
           G = filter (\<lambda>c. fst c \<notin> set [''Gender'', ''ProgrammingExperience''])
                 (filter (\<lambda>c. fst c \<notin> set [''ParticipantID'', ''ErrorsIdentified'',
                    ''CompletionTime'', ''Performance'']) df)
               @ concat (map (dummies_of (float_str L)
                    (filter (\<lambda>c. fst c \<notin> set [''ParticipantID'', ''ErrorsIdentified'',
                       ''CompletionTime'', ''Performance'']) df))
                    [''Gender'', ''ProgrammingExperience''])
         \<and> fit_transform L (map (\<lambda>c. to_float (snd c)) (filter (\<lambda>c. is_numeric (snd c)) G))
             = Inr scaled
         \<and> length scaled = length (filter (\<lambda>c. is_numeric (snd c)) G)
         \<and> list_all (\<lambda>s. length s = df_rows G) scaled
         \<and> out = replace_numeric G scaled @ filter (\<lambda>p. fst p = ''Performance'') df"
proof -
  from assms obtain F where F: "df_drop df [''ParticipantID'', ''ErrorsIdentified'',
      ''CompletionTime'', ''Performance''] = Inr F"
    and 1: "bind_exc (df_select df [''Performance'']) (\<lambda>performance.
       bind_exc (pd_get_dummies (float_str L) F [''Gender'', ''ProgrammingExperience''])
         (\<lambda>features.
       let numerical_features = filter (\<lambda>c. is_numeric (snd c)) features in
       bind_exc (fit_transform L (map (\<lambda>c. to_float (snd c)) numerical_features)) (\<lambda>scaled.
       bind_exc (df_set_numeric features scaled) (\<lambda>features.
       Inr (features @ performance))))) = Inr out"
    unfolding preprocess_data_def by (blast dest: bind_exc_InrD)
  from 1 obtain P where P: "df_select df [''Performance''] = Inr P"
    and 2: "bind_exc (pd_get_dummies (float_str L) F [''Gender'', ''ProgrammingExperience''])
         (\<lambda>features.
       let numerical_features = filter (\<lambda>c. is_numeric (snd c)) features in
       bind_exc (fit_transform L (map (\<lambda>c. to_float (snd c)) numerical_features)) (\<lambda>scaled.
       bind_exc (df_set_numeric features scaled) (\<lambda>features.
       Inr (features @ P)))) = Inr out"
    by (blast dest: bind_exc_InrD)
  from 2 obtain G where G: "pd_get_dummies (float_str L) F [''Gender'', ''ProgrammingExperience'']
       = Inr G"
    and 3: "bind_exc (fit_transform L (map (\<lambda>c. to_float (snd c))
               (filter (\<lambda>c. is_numeric (snd c)) G))) (\<lambda>scaled.
       bind_exc (df_set_numeric G scaled) (\<lambda>features. Inr (features @ P))) = Inr out"
    unfolding Let_def by (blast dest: bind_exc_InrD)
  from 3 obtain scaled where S: "fit_transform L (map (\<lambda>c. to_float (snd c))
               (filter (\<lambda>c. is_numeric (snd c)) G)) = Inr scaled"
    and 4: "bind_exc (df_set_numeric G scaled) (\<lambda>features. Inr (features @ P)) = Inr out"
    by (blast dest: bind_exc_InrD)
  from 4 obtain H where H: "df_set_numeric G scaled = Inr H" and out: "out = H @ P"
    by (auto dest!: bind_exc_InrD)
  have Pdef: "P = filter (\<lambda>p. fst p = ''Performance'') df"
    using P by (simp add: df_select_def split: if_splits)
  have Fdef: "F = filter (\<lambda>c. fst c \<notin> set [''ParticipantID'', ''ErrorsIdentified'',
      ''CompletionTime'', ''Performance'']) df"
    using F by (simp add: df_drop_def split: if_splits)
  have Gdef: "G = filter (\<lambda>c. fst c \<notin> set [''Gender'', ''ProgrammingExperience'']) F
      @ concat (map (dummies_of (float_str L) F) [''Gender'', ''ProgrammingExperience''])"
    using G by (simp add: pd_get_dummies_def split: if_splits)
  have Hdef: "H = replace_numeric G scaled"
    and len: "length scaled = length (filter (\<lambda>c. is_numeric (snd c)) G)"
    and rows: "list_all (\<lambda>s. length s = df_rows G) scaled"
    using H by (simp_all add: df_set_numeric_def split: if_splits)
  show ?thesis
    using Gdef S len rows out unfolding Fdef Pdef Hdef by blast
qed

lemma length_raw_age: "length (raw_age (fst (sample_draws R k g))) = k"
  by (simp add: sample_draws_def case_prod_beta)

lemma generated_features_head:
  "\<exists>G'. filter (\<lambda>c. fst c \<notin> set [''Gender'', ''ProgrammingExperience''])
                 (filter (\<lambda>c. fst c \<notin> set [''ParticipantID'', ''ErrorsIdentified'',
                    ''CompletionTime'', ''Performance'']) (generated_table n d)) @ D
        = (''Age'', IntCol (raw_age d)) # G'"
  by (simp add: generated_table_def Let_def)

lemma preprocess_generated:
  assumes "preprocess_data L (generated_table n d) = Inr out" and "length (raw_age d) = nat n"
  shows "\<exists>G scaled X. fit_transform L X = Inr scaled
         \<and> length scaled = length (filter (\<lambda>c. is_numeric (snd c)) G)
         \<and> list_all (\<lambda>s. length s = nat n) scaled
         \<and> scaled \<noteq> []
         \<and> out = replace_numeric G scaled @ filter (\<lambda>p. fst p = ''Performance'') (generated_table n d)
         \<and> df_rows out = nat n"
proof -
  from preprocess_data_scaled [OF assms(1)] obtain G scaled
    where G: "G = filter (\<lambda>c. fst c \<notin> set [''Gender'', ''ProgrammingExperience''])
                 (filter (\<lambda>c. fst c \<notin> set [''ParticipantID'', ''ErrorsIdentified'',
                    ''CompletionTime'', ''Performance'']) (generated_table n d))
               @ concat (map (dummies_of (float_str L)
                    (filter (\<lambda>c. fst c \<notin> set [''ParticipantID'', ''ErrorsIdentified'',
                       ''CompletionTime'', ''Performance'']) (generated_table n d)))
                    [''Gender'', ''ProgrammingExperience''])"
      and S: "fit_transform L (map (\<lambda>c. to_float (snd c)) (filter (\<lambda>c. is_numeric (snd c)) G))
             = Inr scaled"
      and len: "length scaled = length (filter (\<lambda>c. is_numeric (snd c)) G)"
      and rows: "list_all (\<lambda>s. length s = df_rows G) scaled"
      and out: "out = replace_numeric G scaled
                  @ filter (\<lambda>p. fst p = ''Performance'') (generated_table n d)"
    by blast
  from generated_features_head obtain G' where G': "G = (''Age'', IntCol (raw_age d)) # G'"
    unfolding G by blast
  have rG: "df_rows G = nat n"
    by (simp add: G' df_rows_def assms(2))
  from len obtain s ss where sc: "scaled = s # ss"
    unfolding G' by (cases scaled) simp_all
  have "length s = nat n"
    using rows unfolding sc rG by simp
  then have "df_rows out = nat n"
    unfolding out G' sc by (simp add: df_rows_def)
  then show ?thesis
    using S len rows out sc unfolding rG by blast
qed

lemma preprocess_keeps_row_count:
  assumes "simulate_data R g n seed = Inr (df, g')"
    and "preprocess_data L df = Inr out"
  shows "df_rows out = df_rows df"
proof -
  note D = simulate_data_InrD [OF assms(1)]
  from preprocess_generated [OF assms(2) [unfolded D(5)] length_raw_age]
  show ?thesis
    unfolding D(5) df_rows_generated_table by blast
qed











section \<open>The adapter to R\<close>

text \<open>
  C9. When the IPMA routine of R fails, either because the package is not
  available (\<open>IPMA_r\<close> is \<open>None\<close>) or because the call of the routine raises,
  \<open>run_IPMA_in_r\<close> returns the empty dictionary and raises nothing, for every table
  and every selection of columns.
\<close>

theorem ipma_failure_gives_empty_result:
  assumes "IPMA_r = None
         \<or> (\<exists>IPMA r_data e. IPMA_r = Some IPMA \<and> py2rpy B data = Inr r_data
              \<and> IPMA r_data (y_column @ '' ~ '' @ str_join ''+'' x_columns) = Inl e)"
  shows "snd (run_IPMA_in_r IPMA_r B data x_columns y_column) = Inr []"
  using assms
proof
  assume "IPMA_r = None"
  then show ?thesis
    by (simp add: run_IPMA_in_r_def)
next
  assume "\<exists>IPMA r_data e. IPMA_r = Some IPMA \<and> py2rpy B data = Inr r_data
              \<and> IPMA r_data (y_column @ '' ~ '' @ str_join ''+'' x_columns) = Inl e"
  then obtain IPMA r_data e where "IPMA_r = Some IPMA" "py2rpy B data = Inr r_data"
    "IPMA r_data (y_column @ '' ~ '' @ str_join ''+'' x_columns) = Inl e"
    by blast
  then show ?thesis
    by (simp add: run_IPMA_in_r_def Let_def)
qed

theorem ipma_failure_gives_empty_result_witness:
  "snd (run_IPMA_in_r (None :: dataframe ipma_routine option) identity_bridge example_table
          [''InitialAnxiety'', ''LLMUsage''] ''Performance'') = Inr []
   \<and> py2rpy identity_bridge example_table = Inr example_table
   \<and> failing_ipma example_table (''Performance'' @ '' ~ '' @ str_join ''+'' [''InitialAnxiety'', ''LLMUsage''])
       = Inl (ExternalError ''error in IPMA'')
   \<and> snd (run_IPMA_in_r (Some failing_ipma) identity_bridge example_table
          [''InitialAnxiety'', ''LLMUsage''] ''Performance'') = Inr []"
proof -
  have a: "py2rpy identity_bridge example_table = Inr example_table"
    by (simp add: identity_bridge_def)
  have b: "failing_ipma example_table
      (''Performance'' @ '' ~ '' @ str_join ''+'' [''InitialAnxiety'', ''LLMUsage''])
       = Inl (ExternalError ''error in IPMA'')"
    by (simp add: failing_ipma_def)
  have c: "snd (run_IPMA_in_r (None :: dataframe ipma_routine option) identity_bridge
      example_table [''InitialAnxiety'', ''LLMUsage''] ''Performance'') = Inr []"
    by (rule ipma_failure_gives_empty_result) simp
  have d: "snd (run_IPMA_in_r (Some failing_ipma) identity_bridge example_table
          [''InitialAnxiety'', ''LLMUsage''] ''Performance'') = Inr []"
    using a b by (intro ipma_failure_gives_empty_result) blast
  from a b c d show ?thesis
    by blast
qed

section \<open>The adapter to semopy\<close>

lemma perform_sem_ipma_fit_failure:
  assumes "Model S spec = Inr m" and "fit S m data = Inl e"
  shows "perform_sem_ipma S data spec = ([LineExc ''SEM Fit Error: '' e], Inr (None, None))"
  using assms by (simp add: perform_sem_ipma_def)

lemma perform_sem_ipma_constructor_failure:
  assumes "Model S spec = Inl e"
  shows "perform_sem_ipma S data spec = ([], Inl e)"
  using assms by (simp add: perform_sem_ipma_def)

text \<open>
  C10 does not hold of the code. The call \<open>semopy.Model(model_specification)\<close> stands
  before the first \<open>try\<close>: when the constructor rejects the description, its
  exception leaves \<open>perform_sem_ipma\<close>, nothing is printed and no pair is returned.
  A failure of \<open>model.fit\<close> itself is caught, as lemma
  \<open>perform_sem_ipma_fit_failure\<close> shows. Here the description has no operator.
\<close>

theorem perform_sem_ipma_raises:
  "perform_sem_ipma strict_semopy example_table ''Performance LLMUsage''
     = ([], Inl (ExternalError ''Invalid syntax''))"
  by code_simp

section \<open>Regression\<close>





lemma identifier_chars:
  assumes "is_identifier s"
  shows "s \<noteq> []" and "CHR ''~'' \<notin> set s" and "CHR '' '' \<notin> set s"
proof -
  have a: "CHR ''~'' \<notin> set identifier_start" "CHR '' '' \<notin> set identifier_start"
    "CHR ''~'' \<notin> set identifier_chars" "CHR '' '' \<notin> set identifier_chars"
    by (simp_all add: identifier_start_def identifier_chars_def)
  from assms obtain c cs where s: "s = c # cs" and c: "c \<in> set identifier_start"
    and cs: "\<forall>x \<in> set cs. x \<in> set identifier_chars"
    by (cases s) (simp_all add: is_identifier_def list_all_iff)
  show "s \<noteq> []"
    by (simp add: s)
  show "CHR ''~'' \<notin> set s"
    using a c cs unfolding s by auto
  show "CHR '' '' \<notin> set s"
    using a c cs unfolding s by auto
qed






end
